theory Spec2Isabelle
  imports Complex_Main "HOL-Library.AList" "HOL-Library.Log_Nat"
begin

section \<open>JavaScript numbers\<close>

text \<open>
  A JavaScript number is an IEEE 754 double: a finite value, an infinity or NaN. A finite
  double is held as the rational it denotes; the two zeros are one (the server never
  divides by a zero and never tells them apart).
\<close>

datatype number = Fin rat | PosInf | NegInf | NaN

text \<open>
  The binary exponent of a positive rational: \<open>exponent x\<close> is the \<open>e\<close> with
  \<open>2 powi e \<le> x < 2 powi (e + 1)\<close>.
\<close>

definition exponent :: "rat \<Rightarrow> int" where
  "exponent x = (if 1 \<le> x then bitlen \<lfloor>x\<rfloor> - 1 else - bitlen (\<lceil>1 / x\<rceil> - 1))"

text \<open>The nearest integer, the even one of two that are equally near.\<close>

definition round_even :: "rat \<Rightarrow> int" where
  "round_even x =
     (let f = \<lfloor>x\<rfloor>; r = x - of_int f
      in if r < 1 / 2 then f else if 1 / 2 < r then f + 1 else if even f then f else f + 1)"

text \<open>
  The double nearest to a rational (round to nearest, ties to even): 53 significant bits,
  the least exponent -1022 (below it the spacing of the subnormal numbers, \<open>2 powi -1074\<close>),
  and an infinity when the rounded value reaches \<open>2 ^ 1024\<close>.
\<close>

definition round_double :: "rat \<Rightarrow> number" where
  "round_double x =
     (if x = 0 then Fin 0
      else let e = max (exponent \<bar>x\<bar>) (- 1022);
               u = 2 powi (e - 52);
               y = of_int (round_even (x / u)) * u
           in if 2 ^ 1024 \<le> \<bar>y\<bar> then (if 0 < x then PosInf else NegInf) else Fin y)"

text \<open>\<^verbatim>\<open>a + b\<close> on numbers.\<close>

fun num_add :: "number \<Rightarrow> number \<Rightarrow> number" where
  "num_add NaN _ = NaN"
| "num_add _ NaN = NaN"
| "num_add PosInf NegInf = NaN"
| "num_add NegInf PosInf = NaN"
| "num_add PosInf _ = PosInf"
| "num_add _ PosInf = PosInf"
| "num_add NegInf _ = NegInf"
| "num_add _ NegInf = NegInf"
| "num_add (Fin a) (Fin b) = round_double (a + b)"

text \<open>
  \<^verbatim>\<open>a / c\<close> for a number \<open>a\<close> and a finite literal \<open>c > 0\<close>, as in
  \<^verbatim>\<open>value.duration/1000\<close>.
\<close>

fun num_div :: "number \<Rightarrow> rat \<Rightarrow> number" where
  "num_div NaN c = NaN"
| "num_div PosInf c = PosInf"
| "num_div NegInf c = NegInf"
| "num_div (Fin a) c = round_double (a / c)"

text \<open>\<^verbatim>\<open>Math.floor\<close>: the floor of a double is a double.\<close>

fun num_floor :: "number \<Rightarrow> number" where
  "num_floor (Fin a) = Fin (of_int \<lfloor>a\<rfloor>)"
| "num_floor x = x"

text \<open>\<^verbatim>\<open>a < b\<close> on numbers: false when either is NaN.\<close>

fun num_less :: "number \<Rightarrow> number \<Rightarrow> bool" where
  "num_less NaN _ = False"
| "num_less _ NaN = False"
| "num_less (Fin a) (Fin b) = (a < b)"
| "num_less _ NegInf = False"
| "num_less NegInf _ = True"
| "num_less PosInf _ = False"
| "num_less (Fin a) PosInf = True"

section \<open>JavaScript values and exceptions\<close>

text \<open>
  The values that \<^verbatim>\<open>config.interval\<close>, \<^verbatim>\<open>value.duration\<close> and \<^verbatim>\<open>node.isOutput\<close>
  can hold. \<open>JNum\<close> holds the value of a finite number, \<open>JPosInf\<close> and \<open>JNegInf\<close> are
  the infinities and \<open>JNaN\<close> is the number NaN.
\<close>

datatype jsval =
  JUndefined | JNull | JBool bool | JNum rat | JNaN | JPosInf | JNegInf | JStr string

text \<open>Truthiness, as in \<^verbatim>\<open>if (node.isOutput)\<close>.\<close>

fun truthy :: "jsval \<Rightarrow> bool" where
  "truthy JUndefined = False"
| "truthy JNull = False"
| "truthy (JBool b) = b"
| "truthy (JNum r) = (r \<noteq> 0)"
| "truthy JNaN = False"
| "truthy JPosInf = True"
| "truthy JNegInf = True"
| "truthy (JStr s) = (s \<noteq> [])"

text \<open>
  \<^verbatim>\<open>typeof v === 'number' && v > 0\<close>: the transition duration when it is a number
  greater than zero (NaN is a number, and \<^verbatim>\<open>NaN > 0\<close> is false; \<^verbatim>\<open>Infinity > 0\<close> is
  true).
\<close>

fun positive_number :: "jsval \<Rightarrow> number option" where
  "positive_number (JNum d) = (if d > 0 then Some (Fin d) else None)"
| "positive_number JPosInf = Some PosInf"
| "positive_number _ = None"

text \<open>
  \<^verbatim>\<open>self.interval < 500\<close>: the constructor never gives the server a member
  \<^verbatim>\<open>interval\<close> (the value lives in \<^verbatim>\<open>self.config.interval\<close>), so the read yields
  undefined, which the comparison converts to NaN: the comparison is false.
\<close>

definition undefined_less :: "rat \<Rightarrow> bool" where
  "undefined_less n = False"

datatype exn = TypeError string | Thrown string

text \<open>
  A call either returns or throws; what it did to the state before throwing stays done.
  So every operation gives the state after it and the exception, if one escaped.
\<close>

type_synonym 's outcome = "'s \<times> exn option"

definition andThen :: "'s outcome \<Rightarrow> ('s \<Rightarrow> 's outcome) \<Rightarrow> 's outcome" where
  "andThen r f = (case r of (s, None) \<Rightarrow> f s | (s, Some e) \<Rightarrow> (s, Some e))"

text \<open>\<^verbatim>\<open>xs.forEach(f)\<close>: a throw in one callback ends the loop.\<close>

fun forEach :: "('a \<Rightarrow> 's \<Rightarrow> 's outcome) \<Rightarrow> 'a list \<Rightarrow> 's \<Rightarrow> 's outcome" where
  "forEach f [] s = (s, None)"
| "forEach f (x # xs) s = andThen (f x s) (forEach f xs)"

section \<open>Data model\<close>

text \<open>One element of \<^verbatim>\<open>lightsInfo.lights\<close>, as the bridge returns it.\<close>

record 'p hue_info =
  raw_uniqueid :: string
  raw_id :: string
  raw_name :: string
  raw_state :: 'p

record light_info =
  info_id :: string
  info_name :: string

text \<open>
  A \<^verbatim>\<open>LightItem\<close>: the members the server reads and writes (\<^verbatim>\<open>uniqueid\<close>,
  \<^verbatim>\<open>info.id\<close>, \<^verbatim>\<open>info.name\<close>, \<^verbatim>\<open>modified\<close>) and its canonical state.
\<close>

record 'c LightItem =
  uniqueid :: string
  info :: light_info
  modified :: number
  state :: 'c

text \<open>
  A consumer node: its \<^verbatim>\<open>isOutput\<close> flag, and what its callbacks \<^verbatim>\<open>send\<close> and
  \<^verbatim>\<open>status\<close> do when called: return (\<open>None\<close>) or throw.
\<close>

record node =
  isOutput :: jsval
  send_raises :: "exn option"
  status_raises :: "exn option"

record 'c lightState =
  ls_state :: 'c
  ls_transition :: "number option"

text \<open>What the server does to the outside, in order.\<close>

datatype 'c event =
    Status string "'c option"
  | Send string 'c
  | Reported string string
  | ApiLights
  | ApiSetLightState string "'c lightState"
  | SetInterval nat jsval
  | ClearInterval nat
  | LightStop string

record config =
  address :: string
  key :: string
  interval :: jsval

text \<open>
  The server object and the host's interval timers. Objects used as dictionaries are
  association lists with distinct keys in insertion order, the order of
  \<^verbatim>\<open>Object.keys\<close> for keys that are not array indices.
\<close>

record 'c hub =
  hub_config :: config
  nodeList :: "(string \<times> (string \<times> node) list) list"
  nodeListCount :: nat
  lights :: "(string \<times> 'c LightItem) list"
  lightPollInterval :: "nat option"
  timers :: "(nat \<times> jsval) list"
  next_timer :: nat
  trace :: "'c event list"

definition emit :: "'c event \<Rightarrow> 'c hub \<Rightarrow> 'c hub" where
  "emit e s = s\<lparr>trace := trace s @ [e]\<rparr>"

section \<open>The collaborators\<close>

text \<open>
  Modelled from the spec: \<^verbatim>\<open>lib/hue-light.js\<close> (the class \<^verbatim>\<open>LightItem\<close>) is not among
  the sources. Its pure parts are parameters: \<open>parse\<close> (raw payload to canonical state),
  \<open>diff\<close> (do two canonical states differ) and \<open>applyChange\<close> (the canonical state after
  a desired change, \<^verbatim>\<open>updateColor\<close>).
\<close>

record ('p, 'c, 'w) light_ops =
  parse :: "'p \<Rightarrow> 'c"
  diff :: "'c \<Rightarrow> 'c \<Rightarrow> bool"
  applyChange :: "'w \<Rightarrow> 'c \<Rightarrow> 'c"

text \<open>
  Modelled from the spec: \<^verbatim>\<open>new LightItem(info)\<close>, a record for a device seen for the
  first time, with no suppression deadline pending.
\<close>

definition LightItem_new :: "('p, 'c, 'w) light_ops \<Rightarrow> 'p hue_info \<Rightarrow> 'c LightItem" where
  "LightItem_new ops i =
     \<lparr>uniqueid = raw_uniqueid i,
      info = \<lparr>info_id = raw_id i, info_name = raw_name i\<rparr>,
      modified = Fin 0,
      state = parse ops (raw_state i)\<rparr>"

text \<open>
  Modelled from the spec: \<^verbatim>\<open>light.updateInfo(info)\<close>. "If known, compute whether the
  semantically meaningful state differs from rawState and, only if so and the current
  time is past suppressUntil, update rawState and report a change." The second component
  says whether the light emits its \<^verbatim>\<open>change\<close> event.
\<close>

definition updateInfo ::
  "('p, 'c, 'w) light_ops \<Rightarrow> rat \<Rightarrow> 'p hue_info \<Rightarrow> 'c LightItem \<Rightarrow> 'c LightItem \<times> bool" where
  "updateInfo ops now i light =
     (let c = parse ops (raw_state i) in
      if diff ops (state light) c \<and> num_less (modified light) (Fin now)
      then (light\<lparr>state := c\<rparr>, True)
      else (light, False))"

text \<open>The callbacks of a consumer node. The call is made, then it returns or throws.\<close>

definition node_status :: "string \<Rightarrow> node \<Rightarrow> 'c option \<Rightarrow> 'c hub \<Rightarrow> 'c hub outcome" where
  "node_status nodeID n st s = (emit (Status nodeID st) s, status_raises n)"

definition node_send :: "string \<Rightarrow> node \<Rightarrow> 'c \<Rightarrow> 'c hub \<Rightarrow> 'c hub outcome" where
  "node_send nodeID n colors s = (emit (Send nodeID colors) s, send_raises n)"

text \<open>
  Modelled from the spec: \<^verbatim>\<open>light.updateNodeStatus(node)\<close> computes the status of the
  consumer from the light's current state and sets it with \<^verbatim>\<open>node.status\<close>.
  \<^verbatim>\<open>light.getColors()\<close> renders the current state; a rendered value is identified
  with the canonical state it renders.
\<close>

definition updateNodeStatus :: "'c LightItem \<Rightarrow> string \<Rightarrow> node \<Rightarrow> 'c hub \<Rightarrow> 'c hub outcome" where
  "updateNodeStatus light nodeID n s = node_status nodeID n (Some (state light)) s"

definition getColors :: "'c LightItem \<Rightarrow> 'c" where
  "getColors light = state light"

text \<open>
  Modelled from the spec: \<^verbatim>\<open>light.getLightState()\<close> builds the write request from the
  canonical state, with no transition yet; \<^verbatim>\<open>newState.transition(d)\<close> sets the duration.
\<close>

definition getLightState :: "'c LightItem \<Rightarrow> 'c lightState" where
  "getLightState light = \<lparr>ls_state = state light, ls_transition = None\<rparr>"

definition transition :: "number \<Rightarrow> 'c lightState \<Rightarrow> 'c lightState" where
  "transition d ls = ls\<lparr>ls_transition := Some d\<rparr>"

section \<open>The warning channel\<close>

text \<open>
  The members of a \<^verbatim>\<open>LightServer\<close>: the fields its constructor sets and the methods on
  its prototype. The Node-RED methods \<^verbatim>\<open>warn\<close> and \<^verbatim>\<open>error\<close> belong to the wrapper
  node (\<^verbatim>\<open>LightServerWrapper\<close>), which hands none of them to the server it creates.
\<close>

definition LightServer_members :: "string list" where
  "LightServer_members =
     [''config'', ''nodeList'', ''nodeListCount'', ''lights'', ''hueApi'',
      ''lightPollInterval'', ''huePoll'', ''stop'', ''addLight'', ''statusUpdateLight'',
      ''nodeRegister'', ''nodeUnregister'', ''lightChange'', ''getLights'']"

text \<open>
  \<^verbatim>\<open>err.toString()\<close>, where \<open>err\<close> is \<^verbatim>\<open>null\<close> (\<open>None\<close>) or an error with a message.
\<close>

definition toString :: "string option \<Rightarrow> exn + string" where
  "toString err =
     (case err of
        None \<Rightarrow> Inl (TypeError ''Cannot read properties of null (reading toString)'')
      | Some m \<Rightarrow> Inr m)"

text \<open>
  \<^verbatim>\<open>self.warn(err.toString())\<close> and \<^verbatim>\<open>self.error(err.toString(), err)\<close>: the argument
  is evaluated first, then the member is called; calling a member the object does not
  have throws.
\<close>

definition report :: "string \<Rightarrow> string option \<Rightarrow> 'c hub \<Rightarrow> 'c hub outcome" where
  "report method err s =
     (case toString err of
        Inl e \<Rightarrow> (s, Some e)
      | Inr m \<Rightarrow>
          if method \<in> set LightServer_members
          then (emit (Reported method m) s, None)
          else (s, Some (TypeError (method @ '' is not a function''))))"

section \<open>The server\<close>

text \<open>
  \<^verbatim>\<open>setInterval\<close> and \<^verbatim>\<open>clearInterval\<close> of the host: \<open>timers\<close> holds the interval
  timers that are armed, each with its delay.
\<close>

definition setInterval :: "jsval \<Rightarrow> 'c hub \<Rightarrow> nat \<times> 'c hub" where
  "setInterval delay s =
     (next_timer s,
      emit (SetInterval (next_timer s) delay)
        (s\<lparr>timers := timers s @ [(next_timer s, delay)], next_timer := Suc (next_timer s)\<rparr>))"

definition clearInterval :: "nat \<Rightarrow> 'c hub \<Rightarrow> 'c hub" where
  "clearInterval h s = emit (ClearInterval h) (s\<lparr>timers := AList.delete h (timers s)\<rparr>)"

text \<open>
  The constructor, up to the point where the request for the lights is on its way
  (\<^verbatim>\<open>hueApi.lights\<close> answers later, through its callback).
\<close>

definition LightServer :: "config \<Rightarrow> 'c hub" where
  "LightServer cfg =
     \<lparr>hub_config =
        (if interval cfg \<noteq> JStr ''number'' \<or> undefined_less 500
         then cfg\<lparr>interval := JNum 500\<rparr> else cfg),
      nodeList = [],
      nodeListCount = 0,
      lights = [],
      lightPollInterval = None,
      timers = [],
      next_timer = 0,
      trace = [ApiLights]\<rparr>"

text \<open>
  \<^verbatim>\<open>LightServer.prototype.statusUpdateLight\<close>. The loop runs over the keys of the
  entry and reads the node of each key from the entry, which no callback of the model
  changes meanwhile: it runs over the pairs of the entry.
\<close>

definition statusUpdateLight :: "'c LightItem \<Rightarrow> 'c hub \<Rightarrow> 'c hub outcome" where
  "statusUpdateLight light s =
     (case map_of (nodeList s) (uniqueid light) of
        Some tmp \<Rightarrow>
          forEach (\<lambda>(nodeID, n) s1.
              andThen (updateNodeStatus light nodeID n s1)
                (\<lambda>s2. if truthy (isOutput n) then node_send nodeID n (getColors light) s2
                      else (s2, None)))
            tmp s
      | None \<Rightarrow> (s, None))"

text \<open>
  The listener that \<^verbatim>\<open>addLight\<close> attaches to the light's \<^verbatim>\<open>change\<close> event.
  \<^verbatim>\<open>Object.keys(undefined)\<close> throws.
\<close>

definition on_change :: "'c LightItem \<Rightarrow> 'c hub \<Rightarrow> 'c hub outcome" where
  "on_change light s =
     (let newStateColors = getColors light in
      case map_of (nodeList s) (uniqueid light) of
        None \<Rightarrow> (s, Some (TypeError ''Cannot convert undefined or null to object''))
      | Some subs \<Rightarrow>
          forEach (\<lambda>(nodeID, n) s1.
              andThen (updateNodeStatus light nodeID n s1)
                (\<lambda>s2. if isOutput n = JBool True then node_send nodeID n newStateColors s2
                      else (s2, None)))
            subs s)"

text \<open>\<^verbatim>\<open>LightServer.prototype.addLight\<close>\<close>

definition addLight :: "('p, 'c, 'w) light_ops \<Rightarrow> 'p hue_info \<Rightarrow> 'c hub \<Rightarrow> 'c hub outcome" where
  "addLight ops i s =
     (let light = LightItem_new ops i;
          s1 = s\<lparr>lights := AList.update (uniqueid light) light (lights s)\<rparr>
      in statusUpdateLight light s1)"

text \<open>
  The callback of the constructor's request: \<open>err\<close> is the error (\<open>None\<close> for
  \<^verbatim>\<open>null\<close>), \<open>data\<close> is \<^verbatim>\<open>data.lights\<close>.
\<close>

definition LightServer_fetched ::
  "('p, 'c, 'w) light_ops \<Rightarrow> string option \<Rightarrow> 'p hue_info list \<Rightarrow> 'c hub \<Rightarrow> 'c hub outcome" where
  "LightServer_fetched ops err data s =
     (case err of
        Some m \<Rightarrow> report ''error'' err s
      | None \<Rightarrow>
          andThen (forEach (addLight ops) data s)
            (\<lambda>s1. case setInterval (interval (hub_config s1)) s1 of
                    (h, s2) \<Rightarrow> (s2\<lparr>lightPollInterval := Some h\<rparr>, None)))"

text \<open>
  \<^verbatim>\<open>processLights\<close>, the callback of a poll: the body of the \<^verbatim>\<open>try\<close>, the callback of
  \<^verbatim>\<open>forEach\<close> with its \<^verbatim>\<open>catch\<close>, and the function. \<open>now\<close> is \<^verbatim>\<open>process.uptime()\<close>.
\<close>

definition processLights_try ::
  "('p, 'c, 'w) light_ops \<Rightarrow> rat \<Rightarrow> 'p hue_info \<Rightarrow> 'c hub \<Rightarrow> 'c hub outcome" where
  "processLights_try ops now i s =
     (case map_of (lights s) (raw_uniqueid i) of
        None \<Rightarrow> addLight ops i s
      | Some light \<Rightarrow>
          (case updateInfo ops now i light of
             (light1, changed) \<Rightarrow>
               let s1 = s\<lparr>lights := AList.update (raw_uniqueid i) light1 (lights s)\<rparr>
               in if changed then on_change light1 s1 else (s1, None)))"

definition processLights_each ::
  "('p, 'c, 'w) light_ops \<Rightarrow> rat \<Rightarrow> string option \<Rightarrow> 'p hue_info \<Rightarrow> 'c hub \<Rightarrow> 'c hub outcome" where
  "processLights_each ops now err i s =
     (case processLights_try ops now i s of
        (s1, None) \<Rightarrow> (s1, None)
      | (s1, Some e) \<Rightarrow> report ''warn'' err s1)"

definition processLights ::
  "('p, 'c, 'w) light_ops \<Rightarrow> rat \<Rightarrow> string option \<Rightarrow> 'p hue_info list \<Rightarrow> 'c hub \<Rightarrow> 'c hub outcome" where
  "processLights ops now err lightsInfo s =
     (case err of
        Some m \<Rightarrow> report ''warn'' err s
      | None \<Rightarrow> forEach (processLights_each ops now err) lightsInfo s)"

text \<open>\<^verbatim>\<open>huePoll\<close>: a tick of the timer asks the bridge for the lights.\<close>

definition huePoll :: "'c hub \<Rightarrow> 'c hub" where
  "huePoll s = emit ApiLights s"

text \<open>
  \<^verbatim>\<open>LightServer.prototype.stop\<close>. Modelled from the spec: \<^verbatim>\<open>light.stop()\<close> releases the
  record and returns.
\<close>

definition stop :: "'c hub \<Rightarrow> 'c hub outcome" where
  "stop s =
     (let s1 = (case lightPollInterval s of Some h \<Rightarrow> clearInterval h s | None \<Rightarrow> s);
          s2 = s1\<lparr>lightPollInterval := None\<rparr>;
          s3 = fold (\<lambda>(uid, light). emit (LightStop uid)) (lights s2) s2
      in (s3\<lparr>lights := []\<rparr>, None))"

text \<open>\<^verbatim>\<open>LightServer.prototype.nodeRegister\<close>\<close>

definition nodeRegister :: "string \<Rightarrow> string \<Rightarrow> node \<Rightarrow> 'c hub \<Rightarrow> 'c hub outcome" where
  "nodeRegister lightID nodeID n s =
     (let nl = (if map_of (nodeList s) lightID = None
                then AList.update lightID [] (nodeList s) else nodeList s);
          subs = (case map_of nl lightID of Some m \<Rightarrow> m | None \<Rightarrow> []);
          s1 = s\<lparr>nodeList := AList.update lightID (AList.update nodeID n subs) nl\<rparr>
      in case map_of (lights s1) lightID of
           Some light \<Rightarrow>
             andThen (updateNodeStatus light nodeID n s1)
               (\<lambda>s2. if truthy (isOutput n) then node_send nodeID n (getColors light) s2
                     else (s2, None))
         | None \<Rightarrow> node_status nodeID n None s1)"

text \<open>\<^verbatim>\<open>LightServer.prototype.nodeUnregister\<close>\<close>

definition nodeUnregister :: "string \<Rightarrow> string \<Rightarrow> 'c hub \<Rightarrow> 'c hub outcome" where
  "nodeUnregister lightID nodeID s =
     (case map_of (nodeList s) lightID of
        None \<Rightarrow> (s, None)
      | Some subs \<Rightarrow>
          if map_of subs nodeID = None then (s, None)
          else (s\<lparr>nodeList := AList.update lightID (AList.delete nodeID subs) (nodeList s)\<rparr>,
                None))"

text \<open>
  \<^verbatim>\<open>LightServer.prototype.lightChange\<close>, up to the point where the write is on its way;
  \<open>now\<close> is the value of \<^verbatim>\<open>process.uptime()\<close>, in seconds; the sums, the quotient
  and the floor are those of doubles. The light is an object shared with
  \<^verbatim>\<open>this.lights\<close>: what the function does to it is done to the entry.
\<close>

record 'w change_request =
  duration :: jsval
  change :: 'w

definition lightChange ::
  "('p, 'c, 'w) light_ops \<Rightarrow> rat \<Rightarrow> string \<Rightarrow> 'w change_request \<Rightarrow> 'c hub \<Rightarrow> 'c hub outcome" where
  "lightChange ops now lightID v s =
     (case map_of (lights s) lightID of
        None \<Rightarrow> (s, None)
      | Some light \<Rightarrow>
          let light1 = light\<lparr>modified := num_add (Fin now) (Fin 1)\<rparr>;
              light2 = light1\<lparr>state := applyChange ops (change v) (state light1)\<rparr>;
              newState = getLightState light2;
              (newState1, light3) =
                (case positive_number (duration v) of
                   Some d \<Rightarrow>
                     (transition d newState,
                      light2\<lparr>modified :=
                         num_add (modified light2)
                           (num_floor (num_add (Fin 1) (num_div d 1000)))\<rparr>)
                 | None \<Rightarrow> (newState, light2))
          in (emit (ApiSetLightState (info_id (info light3)) newState1)
                (s\<lparr>lights := AList.update lightID light3 (lights s)\<rparr>),
              None))"

text \<open>The callback of the write.\<close>

definition lightChange_written :: "string option \<Rightarrow> 'c hub \<Rightarrow> 'c hub outcome" where
  "lightChange_written err s =
     (case err of Some m \<Rightarrow> report ''warn'' err s | None \<Rightarrow> (s, None))"

text \<open>\<^verbatim>\<open>LightServer.prototype.getLights\<close>\<close>

record light_entry =
  entry_id :: string
  entry_info :: string
  entry_name :: string

definition getLights :: "'c hub \<Rightarrow> light_entry list" where
  "getLights s =
     map (\<lambda>(lightid, light).
            \<lparr>entry_id = uniqueid light,
             entry_info = info_id (info light),
             entry_name = info_name (info light)\<rparr>)
       (lights s)"

section \<open>Call histories\<close>

text \<open>
  What can happen to a server after its construction: the callbacks of its requests, the
  ticks of its timer and the calls of its methods. An exception that escapes a call
  leaves the state as the call left it.
\<close>

datatype ('p, 'w) hub_call =
    Fetched "string option" "'p hue_info list"
  | Tick
  | Polled rat "string option" "'p hue_info list"
  | Stop
  | NodeRegister string string node
  | NodeUnregister string string
  | LightChange rat string "'w change_request"
  | Written "string option"

fun do_call :: "('p, 'c, 'w) light_ops \<Rightarrow> ('p, 'w) hub_call \<Rightarrow> 'c hub \<Rightarrow> 'c hub" where
  "do_call ops (Fetched err data) s = fst (LightServer_fetched ops err data s)"
| "do_call ops Tick s = huePoll s"
| "do_call ops (Polled now err lightsInfo) s = fst (processLights ops now err lightsInfo s)"
| "do_call ops Stop s = fst (stop s)"
| "do_call ops (NodeRegister lightID nodeID n) s = fst (nodeRegister lightID nodeID n s)"
| "do_call ops (NodeUnregister lightID nodeID) s = fst (nodeUnregister lightID nodeID s)"
| "do_call ops (LightChange now lightID v) s = fst (lightChange ops now lightID v s)"
| "do_call ops (Written err) s = fst (lightChange_written err s)"

definition run :: "('p, 'c, 'w) light_ops \<Rightarrow> ('p, 'w) hub_call list \<Rightarrow> 'c hub \<Rightarrow> 'c hub" where
  "run ops cs s = fold (do_call ops) cs s"

text \<open>The light a call registers a consumer for, if it is a registration.\<close>

fun registered_for :: "('p, 'w) hub_call \<Rightarrow> string list" where
  "registered_for (NodeRegister lightID nodeID n) = [lightID]"
| "registered_for _ = []"

section \<open>What one consumer gets from a fan-out\<close>

text \<open>
  The calls a fan-out makes on one consumer, and the exception the consumer answers with,
  if any. \<open>push\<close> is the test on \<^verbatim>\<open>isOutput\<close>: truthiness in \<^verbatim>\<open>statusUpdateLight\<close>,
  \<^verbatim>\<open>=== true\<close> in the \<^verbatim>\<open>change\<close> listener.
\<close>

definition node_failure :: "(jsval \<Rightarrow> bool) \<Rightarrow> node \<Rightarrow> exn option" where
  "node_failure push n =
     (case status_raises n of
        Some e \<Rightarrow> Some e
      | None \<Rightarrow> if push (isOutput n) then send_raises n else None)"

definition notified :: "(jsval \<Rightarrow> bool) \<Rightarrow> 'c LightItem \<Rightarrow> string \<times> node \<Rightarrow> 'c event list" where
  "notified push light kn =
     Status (fst kn) (Some (state light)) #
       (if status_raises (snd kn) = None \<and> push (isOutput (snd kn))
        then [Send (fst kn) (getColors light)] else [])"

text \<open>No consumer is listed twice in a subscription entry.\<close>

definition entries_distinct :: "'c hub \<Rightarrow> bool" where
  "entries_distinct s = list_all (\<lambda>entry. distinct (map fst (snd entry))) (nodeList s)"

section \<open>A bridge with lamps\<close>

text \<open>
  A concrete setting: the canonical state of a lamp is its brightness, a desired change
  is the new brightness, and the bridge is configured with a poll interval of one second.
\<close>

definition brightness_ops :: "(nat, nat, nat) light_ops" where
  "brightness_ops = \<lparr>parse = (\<lambda>p. p), diff = (\<lambda>a b. a \<noteq> b), applyChange = (\<lambda>w c. w)\<rparr>"

definition bridge_config :: config where
  "bridge_config = \<lparr>address = ''192.168.1.2'', key = ''secret'', interval = JNum 1000\<rparr>"

definition lamp :: "string \<Rightarrow> string \<Rightarrow> nat \<Rightarrow> nat hue_info" where
  "lamp uid n b = \<lparr>raw_uniqueid = uid, raw_id = n, raw_name = ''lamp '' @ n, raw_state = b\<rparr>"

definition reader :: node where
  "reader = \<lparr>isOutput = JBool True, send_raises = None, status_raises = None\<rparr>"

definition broken_reader :: node where
  "broken_reader =
     \<lparr>isOutput = JBool True, send_raises = Some (Thrown ''send failed''), status_raises = None\<rparr>"

definition sink :: node where
  "sink = \<lparr>isOutput = JBool False, send_raises = None, status_raises = None\<rparr>"

text \<open>The server after its first fetch found the lamp D1 at brightness 50.\<close>

definition seeded_hub :: "nat hub" where
  "seeded_hub =
     fst (LightServer_fetched brightness_ops None [lamp ''D1'' ''1'' 50]
            (LightServer bridge_config))"

text \<open>Then two consumers subscribe to D1; the first one's \<^verbatim>\<open>send\<close> throws.\<close>

definition subscribed_hub :: "nat hub" where
  "subscribed_hub =
     fst (nodeRegister ''D1'' ''n2'' reader
            (fst (nodeRegister ''D1'' ''n1'' broken_reader seeded_hub)))"

text \<open>Or a sink and a reader subscribe to D1.\<close>

definition quiet_hub :: "nat hub" where
  "quiet_hub =
     fst (nodeRegister ''D1'' ''n2'' reader (fst (nodeRegister ''D1'' ''n1'' sink seeded_hub)))"

section \<open>Basic facts\<close>

lemma andThen_pair [simp]:
  "andThen (s, None) f = f s" "andThen (s, Some e) f = (s, Some e)"
  by (simp_all add: andThen_def)

lemma forEach_append: "forEach f (xs @ ys) s = andThen (forEach f xs s) (forEach f ys)"
  by (induction xs arbitrary: s) (auto simp: andThen_def split: prod.splits option.splits)


lemma not_in_delete: "(k, v) \<notin> set (AList.delete k al)"
  using delete_notin_dom [of k al] by force

lemma fold_LightStop:
  "fold (\<lambda>(uid, light). emit (LightStop uid)) ls s =
     s\<lparr>trace := trace s @ map (\<lambda>x. LightStop (fst x)) ls\<rparr>"
  by (induction ls arbitrary: s) (auto simp: emit_def)

subsection \<open>Rounding to a double\<close>


















subsection \<open>Bounds of the deadline\<close>






subsection \<open>The warning channel\<close>

lemma report_warn: "report ''warn'' (Some m) s = (s, Some (TypeError ''warn is not a function''))"
  by (simp add: report_def toString_def LightServer_members_def)

lemma report_error:
  "report ''error'' (Some m) s = (s, Some (TypeError ''error is not a function''))"
  by (simp add: report_def toString_def LightServer_members_def)

lemma report_null:
  "report method None s =
     (s, Some (TypeError ''Cannot read properties of null (reading toString)''))"
  by (simp add: report_def toString_def)

subsection \<open>Fan-out\<close>

lemma deliver_one:
  "andThen (updateNodeStatus light k n s)
     (\<lambda>s2. if push (isOutput n) then node_send k n (getColors light) s2 else (s2, None))
   = (s\<lparr>trace := trace s @ notified push light (k, n)\<rparr>, node_failure push n)"
  by (auto simp: andThen_def updateNodeStatus_def node_status_def node_send_def emit_def
      notified_def node_failure_def split: option.splits)

lemma forEach_quiet:
  assumes step: "\<And>k n s. f (k, n) s = (s\<lparr>trace := trace s @ ev (k, n)\<rparr>, fl n)"
      and quiet: "list_all (\<lambda>kn. fl (snd kn) = None) subs"
  shows "forEach f subs s = (s\<lparr>trace := trace s @ concat (map ev subs)\<rparr>, None)"
  using quiet
proof (induction subs arbitrary: s)
  case Nil
  then show ?case by simp
next
  case (Cons kn subs)
  obtain k n where kn: "kn = (k, n)" by (cases kn)
  from Cons.prems have q: "fl n = None" and rest: "list_all (\<lambda>kn. fl (snd kn) = None) subs"
    by (simp_all add: kn)
  show ?case
    by (simp add: kn step q Cons.IH [OF rest])
qed

lemma forEach_fails:
  assumes step: "\<And>k n s. f (k, n) s = (s\<lparr>trace := trace s @ ev (k, n)\<rparr>, fl n)"
      and quiet: "list_all (\<lambda>kn. fl (snd kn) = None) pre"
      and fails: "fl n = Some e"
  shows "forEach f (pre @ (k, n) # post) s
         = (s\<lparr>trace := trace s @ concat (map ev pre) @ ev (k, n)\<rparr>, Some e)"
  by (simp add: forEach_append forEach_quiet [of f ev fl, OF step quiet] step fails)

subsection \<open>The subscription table changes only by registration\<close>

lemma forEach_nodeList:
  assumes "\<And>x s. nodeList (fst (f x s)) = nodeList s"
  shows "nodeList (fst (forEach f xs s)) = nodeList s"
proof (induction xs arbitrary: s)
  case Nil
  then show ?case by simp
next
  case (Cons x xs)
  obtain s1 r where fx: "f x s = (s1, r)" by (cases "f x s")
  have "nodeList s1 = nodeList s" using assms [of x s] fx by simp
  then show ?case using Cons.IH [of s1] fx by (cases r) simp_all
qed

lemma report_nodeList: "nodeList (fst (report method err s)) = nodeList s"
  by (simp add: report_def emit_def split: sum.splits)

lemma statusUpdateLight_nodeList: "nodeList (fst (statusUpdateLight light s)) = nodeList s"
proof (cases "map_of (nodeList s) (uniqueid light)")
  case None
  then show ?thesis by (simp add: statusUpdateLight_def)
next
  case (Some tmp)
  then show ?thesis
    by (simp add: statusUpdateLight_def)
       (rule forEach_nodeList, simp add: split_def deliver_one [where push=truthy])
qed

lemma on_change_nodeList: "nodeList (fst (on_change light s)) = nodeList s"
proof (cases "map_of (nodeList s) (uniqueid light)")
  case None
  then show ?thesis by (simp add: on_change_def)
next
  case (Some subs)
  then show ?thesis
    by (simp add: on_change_def Let_def)
       (rule forEach_nodeList, simp add: split_def deliver_one [where push="\<lambda>v. v = JBool True"])
qed

lemma addLight_nodeList: "nodeList (fst (addLight ops i s)) = nodeList s"
  by (simp add: addLight_def Let_def statusUpdateLight_nodeList)

lemma processLights_try_nodeList: "nodeList (fst (processLights_try ops now i s)) = nodeList s"
  by (simp add: processLights_try_def Let_def addLight_nodeList on_change_nodeList
      split: option.splits prod.splits)

lemma processLights_each_nodeList:
  "nodeList (fst (processLights_each ops now err i s)) = nodeList s"
proof -
  obtain s1 r where t: "processLights_try ops now i s = (s1, r)"
    by (cases "processLights_try ops now i s")
  have "nodeList s1 = nodeList s" using processLights_try_nodeList [of ops now i s] t by simp
  then show ?thesis
    by (cases r) (simp_all add: processLights_each_def t report_nodeList)
qed

lemma processLights_nodeList: "nodeList (fst (processLights ops now err is s)) = nodeList s"
  by (cases err)
     (simp_all add: processLights_def report_nodeList forEach_nodeList processLights_each_nodeList)

lemma LightServer_fetched_nodeList:
  "nodeList (fst (LightServer_fetched ops err data s)) = nodeList s"
proof (cases err)
  case (Some m)
  then show ?thesis by (simp add: LightServer_fetched_def report_nodeList)
next
  case None
  obtain s1 r where f: "forEach (addLight ops) data s = (s1, r)"
    by (cases "forEach (addLight ops) data s")
  have "nodeList s1 = nodeList s"
    using forEach_nodeList [of "addLight ops" data s, OF addLight_nodeList] f by simp
  then show ?thesis
    by (cases r) (simp_all add: None LightServer_fetched_def f setInterval_def emit_def
        split: prod.splits)
qed

lemma stop_nodeList: "nodeList (fst (stop s)) = nodeList s"
  by (simp add: stop_def Let_def fold_LightStop clearInterval_def emit_def split: option.splits)

lemma lightChange_nodeList: "nodeList (fst (lightChange ops now lightID v s)) = nodeList s"
  by (simp add: lightChange_def Let_def emit_def split: option.splits prod.splits)

lemma nodeRegister_keys:
  "fst ` set (nodeList (fst (nodeRegister lightID nodeID n s))) =
     insert lightID (fst ` set (nodeList s))"
proof -
  have "fst ` set (nodeList (fst (nodeRegister lightID nodeID n s)))
        = fst ` set (AList.update lightID
             (AList.update nodeID n
               (case map_of (if map_of (nodeList s) lightID = None
                             then AList.update lightID [] (nodeList s) else nodeList s) lightID of
                  Some m \<Rightarrow> m | None \<Rightarrow> []))
             (if map_of (nodeList s) lightID = None
              then AList.update lightID [] (nodeList s) else nodeList s))"
    by (simp add: nodeRegister_def Let_def updateNodeStatus_def node_status_def node_send_def
        emit_def andThen_def split: option.splits)
  also have "\<dots> = insert lightID (fst ` set (nodeList s))"
    by (auto simp: dom_update)
  finally show ?thesis .
qed

lemma nodeUnregister_keys:
  "fst ` set (nodeList (fst (nodeUnregister lightID nodeID s))) = fst ` set (nodeList s)"
  by (auto simp: nodeUnregister_def dom_update map_of_eq_None_iff split: option.splits
      dest: map_of_SomeD intro: rev_image_eqI)

lemma do_call_keys:
  "fst ` set (nodeList (do_call ops c s)) = fst ` set (nodeList s) \<union> set (registered_for c)"
  by (cases c)
     (simp_all add: LightServer_fetched_nodeList huePoll_def emit_def processLights_nodeList
       stop_nodeList nodeRegister_keys nodeUnregister_keys lightChange_nodeList
       lightChange_written_def report_nodeList split: option.splits)

lemma run_keys:
  "fst ` set (nodeList (run ops cs s)) =
     fst ` set (nodeList s) \<union> set (concat (map registered_for cs))"
  unfolding run_def
  by (induction cs arbitrary: s) (auto simp: do_call_keys)

subsection \<open>A consumer is listed once in its entry\<close>

lemma set_update_subset: "set (AList.update k v al) \<subseteq> insert (k, v) (set al)"
  by (induction al) auto

lemma nodeList_only: "nodeList s' = nodeList s \<Longrightarrow> entries_distinct s' = entries_distinct s"
  by (simp add: entries_distinct_def)

lemma nodeRegister_distinct:
  assumes "entries_distinct s"
  shows "entries_distinct (fst (nodeRegister lightID nodeID n s))"
proof -
  let ?nl = "if map_of (nodeList s) lightID = None
             then AList.update lightID [] (nodeList s) else nodeList s"
  let ?subs = "case map_of ?nl lightID of Some m \<Rightarrow> m | None \<Rightarrow> []"
  have nl: "\<forall>entry \<in> set ?nl. distinct (map fst (snd entry))"
    using assms set_update_subset [of lightID "[]" "nodeList s"]
    by (auto simp: entries_distinct_def list_all_iff)
  have subs: "distinct (map fst ?subs)"
  proof (cases "map_of ?nl lightID")
    case None
    then show ?thesis by simp
  next
    case (Some m)
    then have "(lightID, m) \<in> set ?nl" by (rule map_of_SomeD)
    with nl have "distinct (map fst m)" by fastforce
    with Some show ?thesis by simp
  qed
  have new: "nodeList (fst (nodeRegister lightID nodeID n s))
      = AList.update lightID (AList.update nodeID n ?subs) ?nl"
    by (simp add: nodeRegister_def Let_def updateNodeStatus_def node_status_def node_send_def
        emit_def andThen_def split: option.splits)
  have "\<forall>entry \<in> set (AList.update lightID (AList.update nodeID n ?subs) ?nl).
          distinct (map fst (snd entry))"
    using nl subs set_update_subset [of lightID "AList.update nodeID n ?subs" ?nl]
    by (auto simp: distinct_update)
  then show ?thesis
    by (simp add: entries_distinct_def list_all_iff new)
qed

lemma nodeUnregister_distinct:
  assumes "entries_distinct s"
  shows "entries_distinct (fst (nodeUnregister lightID nodeID s))"
proof (cases "map_of (nodeList s) lightID")
  case None
  then show ?thesis using assms by (simp add: nodeUnregister_def)
next
  case (Some subs)
  then have "distinct (map fst subs)"
    using assms by (auto simp: entries_distinct_def list_all_iff dest!: map_of_SomeD)
  then have "\<forall>entry \<in> set (AList.update lightID (AList.delete nodeID subs) (nodeList s)).
          distinct (map fst (snd entry))"
    using assms set_update_subset [of lightID "AList.delete nodeID subs" "nodeList s"]
    by (auto simp: entries_distinct_def list_all_iff distinct_delete)
  then show ?thesis
    using assms by (simp add: nodeUnregister_def Some entries_distinct_def list_all_iff)
qed

lemma huePoll_nodeList: "nodeList (huePoll s) = nodeList s"
  by (simp add: huePoll_def emit_def)

lemma lightChange_written_nodeList: "nodeList (fst (lightChange_written err s)) = nodeList s"
  by (simp add: lightChange_written_def report_nodeList split: option.splits)

lemma do_call_distinct:
  "entries_distinct s \<Longrightarrow> entries_distinct (do_call ops c s)"
  by (cases c)
     (simp_all add: nodeRegister_distinct nodeUnregister_distinct
       nodeList_only [OF LightServer_fetched_nodeList] nodeList_only [OF processLights_nodeList]
       nodeList_only [OF stop_nodeList] nodeList_only [OF lightChange_nodeList]
       nodeList_only [OF huePoll_nodeList] nodeList_only [OF lightChange_written_nodeList])

lemma run_distinct:
  fixes ops :: "('p, 'c, 'w) light_ops"
  shows "entries_distinct (run ops cs (LightServer cfg))"
proof -
  have "entries_distinct s \<Longrightarrow> entries_distinct (run ops cs s)" for s
    unfolding run_def by (induction cs arbitrary: s) (simp_all add: do_call_distinct)
  moreover have "entries_distinct (LightServer cfg :: 'c hub)"
    by (simp add: entries_distinct_def LightServer_def)
  ultimately show ?thesis by blast
qed

subsection \<open>A fresh server takes every light of the first fetch\<close>

lemma addLight_fresh:
  assumes "nodeList s = []"
  shows "addLight ops i s =
           (s\<lparr>lights := AList.update (raw_uniqueid i) (LightItem_new ops i) (lights s)\<rparr>, None)"
  using assms by (simp add: addLight_def Let_def statusUpdateLight_def LightItem_new_def)

lemma forEach_addLight_fresh:
  assumes "nodeList s = []"
  shows "\<exists>ls. forEach (addLight ops) data s = (s\<lparr>lights := ls\<rparr>, None)"
  using assms
proof (induction data arbitrary: s)
  case Nil
  have "s = s\<lparr>lights := lights s\<rparr>" by simp
  then show ?case by (metis forEach.simps(1))
next
  case (Cons i data)
  let ?s1 = "s\<lparr>lights := AList.update (raw_uniqueid i) (LightItem_new ops i) (lights s)\<rparr>"
  have "nodeList ?s1 = []" using Cons.prems by simp
  from Cons.IH [OF this] obtain ls where "forEach (addLight ops) data ?s1 = (?s1\<lparr>lights := ls\<rparr>, None)"
    by blast
  then have "forEach (addLight ops) (i # data) s = (s\<lparr>lights := ls\<rparr>, None)"
    by (simp add: addLight_fresh [OF Cons.prems])
  then show ?case by blast
qed

subsection \<open>The bridge with lamps\<close>

lemma seeded_hub_eq:
  "seeded_hub =
     \<lparr>hub_config = \<lparr>address = ''192.168.1.2'', key = ''secret'', interval = JNum 500\<rparr>,
      nodeList = [], nodeListCount = 0,
      lights = [(''D1'', \<lparr>uniqueid = ''D1'', info = \<lparr>info_id = ''1'', info_name = ''lamp 1''\<rparr>,
                  modified = Fin 0, state = 50\<rparr>)],
      lightPollInterval = Some 0, timers = [(0, JNum 500)], next_timer = 1,
      trace = [ApiLights, SetInterval 0 (JNum 500)]\<rparr>"
  by (simp add: seeded_hub_def LightServer_fetched_def LightServer_def addLight_def
      statusUpdateLight_def LightItem_new_def lamp_def setInterval_def emit_def Let_def
      bridge_config_def brightness_ops_def undefined_less_def)

lemma subscribed_hub_eq:
  "subscribed_hub =
     \<lparr>hub_config = \<lparr>address = ''192.168.1.2'', key = ''secret'', interval = JNum 500\<rparr>,
      nodeList = [(''D1'', [(''n1'', broken_reader), (''n2'', reader)])], nodeListCount = 0,
      lights = [(''D1'', \<lparr>uniqueid = ''D1'', info = \<lparr>info_id = ''1'', info_name = ''lamp 1''\<rparr>,
                  modified = Fin 0, state = 50\<rparr>)],
      lightPollInterval = Some 0, timers = [(0, JNum 500)], next_timer = 1,
      trace = [ApiLights, SetInterval 0 (JNum 500), Status ''n1'' (Some 50), Send ''n1'' 50,
               Status ''n2'' (Some 50), Send ''n2'' 50]\<rparr>"
  by (simp add: subscribed_hub_def seeded_hub_eq nodeRegister_def updateNodeStatus_def
      node_status_def node_send_def getColors_def reader_def broken_reader_def emit_def Let_def)

lemma quiet_hub_eq:
  "quiet_hub =
     \<lparr>hub_config = \<lparr>address = ''192.168.1.2'', key = ''secret'', interval = JNum 500\<rparr>,
      nodeList = [(''D1'', [(''n1'', sink), (''n2'', reader)])], nodeListCount = 0,
      lights = [(''D1'', \<lparr>uniqueid = ''D1'', info = \<lparr>info_id = ''1'', info_name = ''lamp 1''\<rparr>,
                  modified = Fin 0, state = 50\<rparr>)],
      lightPollInterval = Some 0, timers = [(0, JNum 500)], next_timer = 1,
      trace = [ApiLights, SetInterval 0 (JNum 500), Status ''n1'' (Some 50),
               Status ''n2'' (Some 50), Send ''n2'' 50]\<rparr>"
  by (simp add: quiet_hub_def seeded_hub_eq nodeRegister_def updateNodeStatus_def
      node_status_def node_send_def getColors_def reader_def sink_def emit_def Let_def)

section \<open>The claims\<close>

subsection \<open>C1: the suppression deadline of a write\<close>



subsection \<open>C2: the poll interval\<close>

text \<open>
  C2. The claim: an interval below the floor of 500 ms or not a number is clamped to the
  floor, and a number at or above the floor is the period of the poll timer. The
  constructor compares \<^verbatim>\<open>config.interval\<close> itself, not its type, with the string
  \<^verbatim>\<open>'number'\<close>: whatever is configured but that very string, the timer armed after a
  successful first fetch has the period 500.
\<close>

theorem LightServer_poll_interval:
  fixes ops :: "('p, 'c, 'w) light_ops"
  assumes "interval cfg \<noteq> JStr ''number''"
  shows "\<exists>s'. LightServer_fetched ops None data (LightServer cfg) = (s', None) \<and>
              timers s' = [(0, JNum 500)] \<and> lightPollInterval s' = Some 0"
proof -
  let ?s = "LightServer cfg :: 'c hub"
  have fresh: "nodeList ?s = []" by (simp add: LightServer_def)
  from forEach_addLight_fresh [OF fresh, of ops data]
  obtain ls where run: "forEach (addLight ops) data ?s = (?s\<lparr>lights := ls\<rparr>, None)"
    by blast
  have cfg: "interval (hub_config ?s) = JNum 500 \<and> timers ?s = [] \<and> next_timer ?s = 0"
    using assms by (simp add: LightServer_def)
  show ?thesis
    using cfg by (simp add: LightServer_fetched_def run setInterval_def emit_def)
qed

theorem LightServer_poll_interval_witness:
  "interval bridge_config = JNum 1000 \<and> timers seeded_hub = [(0, JNum 500)]"
proof -
  have ne: "interval bridge_config \<noteq> JStr ''number''"
    by (simp add: bridge_config_def)
  from LightServer_poll_interval [OF ne, of brightness_ops "[lamp ''D1'' ''1'' 50]"]
  obtain s' where "LightServer_fetched brightness_ops None [lamp ''D1'' ''1'' 50]
        (LightServer bridge_config) = (s', None)" and "timers s' = [(0, JNum 500)]"
    by blast
  then show ?thesis
    by (simp add: seeded_hub_def bridge_config_def)
qed

lemma LightServer_interval_string_kept:
  "interval (hub_config (LightServer (cfg\<lparr>interval := JStr ''number''\<rparr>))) = JStr ''number''"
  by (simp add: LightServer_def undefined_less_def)

subsection \<open>C3: the first fetch fails\<close>

text \<open>
  C3. The claim: when the first fetch fails, the failure is reported, no timer is armed,
  no record is created and the list of lights is empty. The callback calls
  \<^verbatim>\<open>self.error\<close>, which a \<^verbatim>\<open>LightServer\<close> does not have: nothing is reported and a
  \<open>TypeError\<close> escapes the callback. The server is left as the constructor made it: no
  timer, no lights.
\<close>

theorem LightServer_fetch_failure:
  fixes ops :: "('p, 'c, 'w) light_ops"
  shows "LightServer_fetched ops (Some m) data (LightServer cfg) =
     (LightServer cfg, Some (TypeError ''error is not a function'')) \<and>
   getLights (LightServer cfg :: 'c hub) = [] \<and>
   timers (LightServer cfg :: 'c hub) = [] \<and>
   lightPollInterval (LightServer cfg :: 'c hub) = None \<and>
   trace (LightServer cfg :: 'c hub) = [ApiLights]"
  by (simp add: LightServer_fetched_def report_error) (simp add: LightServer_def getLights_def)

theorem LightServer_fetch_failure_witness:
  "snd (LightServer_fetched brightness_ops (Some ''ETIMEDOUT'') [] (LightServer bridge_config))
     = Some (TypeError ''error is not a function'') \<and>
   trace (fst (LightServer_fetched brightness_ops (Some ''ETIMEDOUT'') []
                 (LightServer bridge_config))) = [ApiLights]"
  using LightServer_fetch_failure [of brightness_ops "''ETIMEDOUT''" "[]" bridge_config]
  by simp

subsection \<open>C4: a consumer that throws\<close>

text \<open>
  C4, as claimed: a failure while delivering to one consumer neither keeps the change from
  the remaining consumers nor leaves the fan-out. It fails for the lamp D1 with the
  consumers n1, whose \<^verbatim>\<open>send\<close> throws, and n2: the exception leaves the listener and n2
  is not called.
\<close>

theorem on_change_fanout_counterexample:
  "on_change (LightItem_new brightness_ops (lamp ''D1'' ''1'' 60)) subscribed_hub =
     (subscribed_hub\<lparr>trace := trace subscribed_hub @ [Status ''n1'' (Some 60), Send ''n1'' 60]\<rparr>,
      Some (Thrown ''send failed''))"
  by (simp add: subscribed_hub_eq on_change_def LightItem_new_def lamp_def brightness_ops_def
      updateNodeStatus_def node_status_def node_send_def getColors_def reader_def
      broken_reader_def emit_def Let_def)

text \<open>
  C4, amended. When a device with a subscription entry changes, its consumers are called
  in the order of the entry. If no callback throws, every consumer gets its status once
  and, when its \<^verbatim>\<open>isOutput\<close> is \<^verbatim>\<open>true\<close>, the new state once, and the listener returns.
  If a callback of a consumer throws, the consumers before it have been served, the ones
  after it are not called, and the exception leaves the listener.
\<close>

theorem on_change_fanout:
  assumes "map_of (nodeList s) (uniqueid light) = Some subs"
  shows "(list_all (\<lambda>kn. node_failure (\<lambda>v. v = JBool True) (snd kn) = None) subs \<longrightarrow>
            on_change light s =
              (s\<lparr>trace := trace s @ concat (map (notified (\<lambda>v. v = JBool True) light) subs)\<rparr>,
               None))
       \<and> (\<forall>pre k n post e.
            subs = pre @ (k, n) # post \<and>
            list_all (\<lambda>kn. node_failure (\<lambda>v. v = JBool True) (snd kn) = None) pre \<and>
            node_failure (\<lambda>v. v = JBool True) n = Some e \<longrightarrow>
            on_change light s =
              (s\<lparr>trace := trace s @ concat (map (notified (\<lambda>v. v = JBool True) light) pre)
                                   @ notified (\<lambda>v. v = JBool True) light (k, n)\<rparr>,
               Some e))"
proof -
  let ?f = "\<lambda>(nodeID, n) s1.
              andThen (updateNodeStatus light nodeID n s1)
                (\<lambda>s2. if isOutput n = JBool True then node_send nodeID n (getColors light) s2
                      else (s2, None))"
  have step: "\<And>k n s. ?f (k, n) s
      = (s\<lparr>trace := trace s @ notified (\<lambda>v. v = JBool True) light (k, n)\<rparr>,
         node_failure (\<lambda>v. v = JBool True) n)"
    by (simp add: deliver_one [where push="\<lambda>v. v = JBool True"])
  have run: "on_change light s = forEach ?f subs s"
    using assms by (simp add: on_change_def Let_def)
  show ?thesis
    unfolding run
    using forEach_quiet [of ?f, OF step] forEach_fails [of ?f, OF step]
    by blast
qed

theorem on_change_fanout_witness:
  "on_change (LightItem_new brightness_ops (lamp ''D1'' ''1'' 60)) quiet_hub =
     (quiet_hub\<lparr>trace := trace quiet_hub @
        [Status ''n1'' (Some 60), Status ''n2'' (Some 60), Send ''n2'' 60]\<rparr>, None) \<and>
   snd (on_change (LightItem_new brightness_ops (lamp ''D1'' ''1'' 60)) subscribed_hub) =
     Some (Thrown ''send failed'')"
proof -
  let ?light = "LightItem_new brightness_ops (lamp ''D1'' ''1'' 60)"
  let ?push = "\<lambda>v. v = JBool True"
  have entry: "map_of (nodeList quiet_hub) (uniqueid ?light) =
      Some [(''n1'', sink), (''n2'', reader)]"
    by (simp add: quiet_hub_eq LightItem_new_def lamp_def)
  have quiet: "list_all (\<lambda>kn. node_failure ?push (snd kn) = None)
      [(''n1'', sink), (''n2'', reader)]"
    by (simp add: node_failure_def sink_def reader_def)
  from on_change_fanout [OF entry] quiet
  have "on_change ?light quiet_hub =
      (quiet_hub\<lparr>trace := trace quiet_hub @
         concat (map (notified ?push ?light) [(''n1'', sink), (''n2'', reader)])\<rparr>,
       None)"
    by blast
  then have served: "on_change ?light quiet_hub =
      (quiet_hub\<lparr>trace := trace quiet_hub @
         [Status ''n1'' (Some 60), Status ''n2'' (Some 60), Send ''n2'' 60]\<rparr>, None)"
    by (simp add: notified_def sink_def reader_def getColors_def LightItem_new_def lamp_def
        brightness_ops_def)
  have entry2: "map_of (nodeList subscribed_hub) (uniqueid ?light) =
      Some [(''n1'', broken_reader), (''n2'', reader)]"
    by (simp add: subscribed_hub_eq LightItem_new_def lamp_def)
  have split: "[(''n1'', broken_reader), (''n2'', reader)] =
      [] @ (''n1'', broken_reader) # [(''n2'', reader)]"
    by simp
  have before: "list_all (\<lambda>kn. node_failure ?push (snd kn) = None) []"
    by simp
  have fails: "node_failure ?push broken_reader = Some (Thrown ''send failed'')"
    by (simp add: node_failure_def broken_reader_def)
  from on_change_fanout [OF entry2] split before fails
  have "on_change ?light subscribed_hub =
      (subscribed_hub\<lparr>trace := trace subscribed_hub @ concat (map (notified ?push ?light) [])
           @ notified ?push ?light (''n1'', broken_reader)\<rparr>,
       Some (Thrown ''send failed''))"
    by blast
  with served show ?thesis by simp
qed

subsection \<open>C5: a write to an unknown device\<close>

text \<open>
  C5, as claimed: a write to a device that is not registered fails with a report of
  \<open>DeviceNotFound\<close> to the caller. It fails for the device D9, which the server has not
  seen: the call returns, no exception and nothing reported.
\<close>

theorem lightChange_unregistered_counterexample:
  "lightChange brightness_ops 10 ''D9'' \<lparr>duration = JUndefined, change = 80\<rparr> seeded_hub
     = (seeded_hub, None)"
  by (simp add: seeded_hub_eq lightChange_def)

text \<open>
  C5, amended. A write to a device that is not registered returns at once without
  reporting anything, and changes nothing: no record, no subscription, no timer, and no
  write goes to the bridge.
\<close>

theorem lightChange_unregistered:
  assumes "map_of (lights s) lightID = None"
  shows "lightChange ops now lightID v s = (s, None)"
  using assms by (simp add: lightChange_def)

theorem lightChange_unregistered_witness:
  "lightChange brightness_ops 3 ''D2'' \<lparr>duration = JNum 400, change = 10\<rparr>
     (LightServer bridge_config) = (LightServer bridge_config, None)"
proof -
  have "map_of (lights (LightServer bridge_config :: nat hub)) ''D2'' = None"
    by (simp add: LightServer_def)
  then show ?thesis by (rule lightChange_unregistered)
qed

subsection \<open>C6: a subscriber is served at once\<close>

text \<open>
  C6. A subscription is answered within the call. For a known device the consumer's
  status is set from the light and, when its \<^verbatim>\<open>isOutput\<close> is truthy (and its status
  callback returned), the current state is sent to it; for an unknown device its status
  is set to unknown.
\<close>

theorem nodeRegister_immediate:
  "trace (fst (nodeRegister lightID nodeID n s)) =
     trace s @
     (case map_of (lights s) lightID of
        Some light \<Rightarrow>
          Status nodeID (Some (state light)) #
            (if status_raises n = None \<and> truthy (isOutput n)
             then [Send nodeID (getColors light)] else [])
      | None \<Rightarrow> [Status nodeID None])"
  by (auto simp: nodeRegister_def Let_def updateNodeStatus_def node_status_def node_send_def
      emit_def andThen_def split: option.splits)

theorem nodeRegister_immediate_witness:
  "trace (fst (nodeRegister ''D1'' ''n1'' reader seeded_hub)) =
     trace seeded_hub @ [Status ''n1'' (Some 50), Send ''n1'' 50] \<and>
   trace (fst (nodeRegister ''D7'' ''n1'' reader seeded_hub)) =
     trace seeded_hub @ [Status ''n1'' None]"
  using nodeRegister_immediate [of "''D1''" "''n1''" reader seeded_hub]
    nodeRegister_immediate [of "''D7''" "''n1''" reader seeded_hub]
  by (simp add: seeded_hub_eq reader_def getColors_def)

subsection \<open>C7: stopping twice\<close>

text \<open>
  C7. \<^verbatim>\<open>stop\<close> does not throw; after it no timer handle is held and the timer it held is
  no longer armed, and no light is left. A second \<^verbatim>\<open>stop\<close> right after changes nothing.
\<close>

theorem stop_twice:
  "andThen (stop s) stop = stop s \<and> snd (stop s) = None \<and>
   lightPollInterval (fst (stop s)) = None \<and> lights (fst (stop s)) = [] \<and>
   (case lightPollInterval s of
      Some h \<Rightarrow> h \<notin> fst ` set (timers (fst (stop s)))
    | None \<Rightarrow> timers (fst (stop s)) = timers s)"
proof -
  obtain s' where s': "stop s = (s', None)"
    by (simp add: stop_def Let_def)
  have fields: "lightPollInterval s' = None \<and> lights s' = []"
    using s' by (auto simp: stop_def Let_def fold_LightStop)
  have again: "stop s' = (s', None)"
    using fields by (simp add: stop_def)
  have tm: "(case lightPollInterval s of
               Some h \<Rightarrow> h \<notin> fst ` set (timers s')
             | None \<Rightarrow> timers s' = timers s)"
    using s'
    by (auto simp: stop_def Let_def fold_LightStop clearInterval_def emit_def not_in_delete
        split: option.splits)
  show ?thesis
    using s' fields again tm by (auto simp: andThen_def split: option.splits)
qed

theorem stop_twice_witness:
  "andThen (stop seeded_hub) stop = stop seeded_hub \<and>
   timers (fst (stop seeded_hub)) = [] \<and>
   trace (fst (stop seeded_hub)) = trace seeded_hub @ [ClearInterval 0, LightStop ''D1'']"
  using stop_twice [of seeded_hub]
  by (simp add: seeded_hub_eq stop_def clearInterval_def emit_def Let_def)

subsection \<open>C8: a poll fails\<close>

text \<open>
  C8. The claim: when the fetch of a poll fails, the error goes to the warning channel,
  the pass is skipped, no exception escapes and the timer runs on. The callback calls
  \<^verbatim>\<open>lightServer.warn\<close>, which a \<^verbatim>\<open>LightServer\<close> does not have: the state is untouched
  (no record, no dispatch, the timer still armed), but nothing is reported and a
  \<open>TypeError\<close> escapes the callback.
\<close>

theorem processLights_fetch_error:
  "processLights ops now (Some m) lightsInfo s = (s, Some (TypeError ''warn is not a function''))"
  by (simp add: processLights_def report_warn)

theorem processLights_fetch_error_witness:
  "processLights brightness_ops 10 (Some ''ETIMEDOUT'') [] seeded_hub =
     (seeded_hub, Some (TypeError ''warn is not a function'')) \<and>
   timers seeded_hub = [(0, JNum 500)]"
  using processLights_fetch_error [of brightness_ops 10 "''ETIMEDOUT''" "[]" seeded_hub]
  by (simp add: seeded_hub_eq)

subsection \<open>C9: a change of a device nobody subscribed to\<close>

text \<open>
  C9. After any history of calls in which no consumer was registered for a device, the
  listener of the device's \<^verbatim>\<open>change\<close> event throws a \<open>TypeError\<close> (it reads the keys of
  a subscription entry that does not exist), where \<^verbatim>\<open>statusUpdateLight\<close>, which checks
  for the entry first, returns and does nothing.
\<close>

theorem on_change_never_registered:
  fixes light :: "'c LightItem"
  assumes "uniqueid light \<notin> set (concat (map registered_for cs))"
  shows "on_change light (run ops cs (LightServer cfg))
           = (run ops cs (LightServer cfg),
              Some (TypeError ''Cannot convert undefined or null to object''))
         \<and> statusUpdateLight light (run ops cs (LightServer cfg))
           = (run ops cs (LightServer cfg), None)"
proof -
  have "fst ` set (nodeList (run ops cs (LightServer cfg :: 'c hub)))
          = set (concat (map registered_for cs))"
    by (simp add: run_keys) (simp add: LightServer_def)
  with assms
  have "map_of (nodeList (run ops cs (LightServer cfg :: 'c hub))) (uniqueid light) = None"
    by (simp add: map_of_eq_None_iff)
  then show ?thesis
    by (simp add: on_change_def statusUpdateLight_def)
qed

theorem on_change_never_registered_witness:
  "on_change (LightItem_new brightness_ops (lamp ''D1'' ''1'' 60)) seeded_hub =
     (seeded_hub, Some (TypeError ''Cannot convert undefined or null to object''))"
proof -
  have hist: "run brightness_ops [Fetched None [lamp ''D1'' ''1'' 50]] (LightServer bridge_config)
      = seeded_hub"
    by (simp add: run_def seeded_hub_def)
  have never1: "uniqueid (LightItem_new brightness_ops (lamp ''D1'' ''1'' 60))
      \<notin> set (concat (map registered_for
            ([Fetched None [lamp ''D1'' ''1'' 50]] :: (nat, nat) hub_call list)))"
    by (simp add: LightItem_new_def lamp_def)
  from on_change_never_registered [OF never1, of brightness_ops bridge_config]
  show ?thesis
    by (simp add: hist)
qed

subsection \<open>C10: the catch of a pass\<close>

text \<open>
  C10. In a pass over a successful fetch, when creating or updating a device throws, the
  \<^verbatim>\<open>catch\<close> formats the fetch error, which is \<^verbatim>\<open>null\<close>: a \<open>TypeError\<close> escapes the
  callback and the devices after that one are not looked at.
\<close>

theorem processLights_catch_throws:
  assumes "forEach (processLights_each ops now None) pre s = (s1, None)"
      and "processLights_try ops now i s1 = (s2, Some e)"
  shows "processLights ops now None (pre @ i # post) s =
           (s2, Some (TypeError ''Cannot read properties of null (reading toString)''))"
  using assms
  by (simp add: processLights_def forEach_append processLights_each_def report_null)

theorem processLights_catch_throws_witness:
  "processLights brightness_ops 10 None [lamp ''D1'' ''1'' 60, lamp ''D2'' ''2'' 10] seeded_hub =
     (seeded_hub\<lparr>lights :=
        [(''D1'', \<lparr>uniqueid = ''D1'', info = \<lparr>info_id = ''1'', info_name = ''lamp 1''\<rparr>,
                   modified = Fin 0, state = 60\<rparr>)]\<rparr>,
      Some (TypeError ''Cannot read properties of null (reading toString)''))"
proof -
  have first: "forEach (processLights_each brightness_ops 10 None) [] seeded_hub
      = (seeded_hub, None)"
    by simp
  have thrown: "processLights_try brightness_ops 10 (lamp ''D1'' ''1'' 60) seeded_hub =
      (seeded_hub\<lparr>lights :=
         [(''D1'', \<lparr>uniqueid = ''D1'', info = \<lparr>info_id = ''1'', info_name = ''lamp 1''\<rparr>,
                    modified = Fin 0, state = 60\<rparr>)]\<rparr>,
       Some (TypeError ''Cannot convert undefined or null to object''))"
    by (simp add: seeded_hub_eq processLights_try_def updateInfo_def on_change_def lamp_def
        brightness_ops_def Let_def)
  from processLights_catch_throws [OF first thrown, of "[lamp ''D2'' ''2'' 10]"]
  show ?thesis by simp
qed

end
